theory Spec2Isabelle
  imports Main "HOL-Library.Sublist" "HOL-Library.Char_ord"
begin

section \<open>JavaScript values, errors and requests\<close>

text \<open>
  The service is an Express application (\<^verbatim>\<open>app.js\<close>) of three layers: a middleware
  that checks the shape of a SPARQL request and asks the configured \<^verbatim>\<open>isAuthorized\<close>
  function, a proxy mounted at \<^verbatim>\<open>/sparql\<close>, and an error handler. The model below
  follows the file function by function. A \<^verbatim>\<open>throw\<close> is the left injection of a sum,
  the configured authorization function is a parameter, and what Express, Node and the
  body parsers hand to the code is the input.
\<close>

text \<open>
  The values that occur as form fields, URL parameters and results of the authorization
  function. Numbers are the integral ones; strings are byte strings, which is enough for
  the emptiness tests the code makes on them.
\<close>

datatype js_value =
    JUndefined
  | JNull
  | JBool bool
  | JNumber int
  | JString string
  | JArray "js_value list"
  | JObject "(string \<times> js_value) list"

text \<open>JavaScript's conversion to a boolean, as \<^verbatim>\<open>!x\<close> and \<^verbatim>\<open>x || y\<close> apply it.\<close>

fun truthy :: "js_value \<Rightarrow> bool" where
  "truthy JUndefined = False"
| "truthy JNull = False"
| "truthy (JBool b) = b"
| "truthy (JNumber n) = (n \<noteq> 0)"
| "truthy (JString s) = (s \<noteq> [])"
| "truthy (JArray xs) = True"
| "truthy (JObject kvs) = True"

text \<open>
  \<^verbatim>\<open>req.body\<close> as the body parsers leave it: \<^verbatim>\<open>undefined\<close> when no parser has set
  it; the object that the form parser makes of a urlencoded body, which has no prototype and
  so none of the methods of \<^verbatim>\<open>Object.prototype\<close>; an ordinary object (the \<^verbatim>\<open>{}\<close> that a
  parser leaves when it does not parse, the empty list, or a JSON object); or a
  \<^verbatim>\<open>Buffer\<close> of the raw bytes, which \<^verbatim>\<open>bodyParser.raw\<close> produces for
  \<^verbatim>\<open>application/sparql-query\<close>. A \<^typ>\<open>char\<close> is one byte.
\<close>

datatype body =
    Body_undefined
  | Body_form "(string \<times> js_value) list"
  | Body_object "(string \<times> js_value) list"
  | Body_buffer "char list"

text \<open>
  An \<^verbatim>\<open>Error\<close> object: its message and its \<^verbatim>\<open>status\<close> property, \<open>None\<close> when the
  property was never set.
\<close>

record js_error =
  message :: string
  status :: "int option"

definition new_Error :: "string \<Rightarrow> js_error" where
  "new_Error msg = \<lparr>message = msg, status = None\<rparr>"

definition new_TypeError :: "string \<Rightarrow> js_error" where
  "new_TypeError msg = \<lparr>message = msg, status = None\<rparr>"

text \<open>
  The request as Express presents it. Node stores header names in lower case;
  \<^verbatim>\<open>req.query\<close> is the parsed query string of the URL.
\<close>

record request =
  req_method :: string
  path :: string
  headers :: "string \<rightharpoonup> string"
  query :: "string \<rightharpoonup> js_value"
  body :: body

definition ascii_lower :: "char \<Rightarrow> char" where
  "ascii_lower c =
     (if CHR ''A'' \<le> c \<and> c \<le> CHR ''Z'' then char_of (of_char c + (32::nat)) else c)"

text \<open>\<^verbatim>\<open>req.get(name)\<close>: the header of that name, compared without case, or \<^verbatim>\<open>undefined\<close>.\<close>

definition req_get :: "request \<Rightarrow> string \<Rightarrow> string option" where
  "req_get req name = headers req (map ascii_lower name)"

text \<open>\<^verbatim>\<open>!s\<close> for a value that is a string or \<^verbatim>\<open>undefined\<close>.\<close>

fun truthy_string :: "string option \<Rightarrow> bool" where
  "truthy_string None = False"
| "truthy_string (Some s) = (s \<noteq> [])"

text \<open>\<^verbatim>\<open>String(x)\<close> for a value that is a string or \<^verbatim>\<open>undefined\<close>, as \<^verbatim>\<open>RegExp.test\<close> applies it.\<close>

fun String_of :: "string option \<Rightarrow> string" where
  "String_of None = ''undefined''"
| "String_of (Some s) = s"

text \<open>
  \<^verbatim>\<open>/application\/x-www-form-urlencoded/.test(x)\<close> and \<^verbatim>\<open>/application\/sparql-query/.test(x)\<close>:
  both patterns are literal texts without anchors, so the test is whether the text occurs
  somewhere in the string.
\<close>

definition regexp_test :: "string \<Rightarrow> string option \<Rightarrow> bool" where
  "regexp_test pat x = sublist pat (String_of x)"

definition form_urlencoded :: string where
  "form_urlencoded = ''application/x-www-form-urlencoded''"

definition sparql_query :: string where
  "sparql_query = ''application/sparql-query''"

section \<open>Buffers and text\<close>

text \<open>
  \<^verbatim>\<open>buf.toString()\<close> decodes the bytes as UTF-8 and puts U+FFFD in the place of every
  malformed sequence; writing a string to the outgoing request encodes it as UTF-8 again.
  A decoded text is the list of its code points. \<open>utf8_scan\<close> reads one sequence after the
  other, \<open>None\<close> standing for a malformed one: a lead byte, then the continuation bytes in
  the ranges of the Unicode standard; a byte that cannot continue the sequence ends it and
  is read again as the start of the next.
\<close>

definition second_lo :: "nat \<Rightarrow> nat" where
  "second_lo b = (if b = 0xE0 then 0xA0 else if b = 0xF0 then 0x90 else 0x80)"

definition second_hi :: "nat \<Rightarrow> nat" where
  "second_hi b = (if b = 0xED then 0x9F else if b = 0xF4 then 0x8F else 0xBF)"

definition continuation :: "nat \<Rightarrow> bool" where
  "continuation b = (0x80 \<le> b \<and> b \<le> 0xBF)"

fun utf8_scan :: "nat list \<Rightarrow> nat option list" where
  "utf8_scan [] = []"
| "utf8_scan (b # bs) =
     (if b < 0x80 then Some b # utf8_scan bs
      else if 0xC2 \<le> b \<and> b \<le> 0xDF then
        (case bs of
           [] \<Rightarrow> [None]
         | b1 # r1 \<Rightarrow>
             if continuation b1
             then Some ((b - 0xC0) * 64 + (b1 - 0x80)) # utf8_scan r1
             else None # utf8_scan bs)
      else if 0xE0 \<le> b \<and> b \<le> 0xEF then
        (case bs of
           [] \<Rightarrow> [None]
         | b1 # r1 \<Rightarrow>
             if second_lo b \<le> b1 \<and> b1 \<le> second_hi b then
               (case r1 of
                  [] \<Rightarrow> [None]
                | b2 # r2 \<Rightarrow>
                    if continuation b2
                    then Some ((b - 0xE0) * 4096 + (b1 - 0x80) * 64 + (b2 - 0x80)) # utf8_scan r2
                    else None # utf8_scan r1)
             else None # utf8_scan bs)
      else if 0xF0 \<le> b \<and> b \<le> 0xF4 then
        (case bs of
           [] \<Rightarrow> [None]
         | b1 # r1 \<Rightarrow>
             if second_lo b \<le> b1 \<and> b1 \<le> second_hi b then
               (case r1 of
                  [] \<Rightarrow> [None]
                | b2 # r2 \<Rightarrow>
                    if continuation b2 then
                      (case r2 of
                         [] \<Rightarrow> [None]
                       | b3 # r3 \<Rightarrow>
                           if continuation b3
                           then Some ((b - 0xF0) * 262144 + (b1 - 0x80) * 4096
                                      + (b2 - 0x80) * 64 + (b3 - 0x80)) # utf8_scan r3
                           else None # utf8_scan r2)
                    else None # utf8_scan r1)
             else None # utf8_scan bs)
      else None # utf8_scan bs)"

fun code_point :: "nat option \<Rightarrow> nat" where
  "code_point None = 0xFFFD"
| "code_point (Some c) = c"

definition Buffer_toString :: "char list \<Rightarrow> nat list" where
  "Buffer_toString buf = map code_point (utf8_scan (map of_char buf))"

text \<open>The bytes hold well-formed UTF-8 when no sequence in them is malformed.\<close>

definition well_formed_utf8 :: "char list \<Rightarrow> bool" where
  "well_formed_utf8 buf = (None \<notin> set (utf8_scan (map of_char buf)))"

definition utf8_encode :: "nat \<Rightarrow> nat list" where
  "utf8_encode c =
     (if c < 0x80 then [c]
      else if c < 0x800 then [0xC0 + c div 64, 0x80 + c mod 64]
      else if c < 0x10000 then [0xE0 + c div 4096, 0x80 + c div 64 mod 64, 0x80 + c mod 64]
      else [0xF0 + c div 262144, 0x80 + c div 4096 mod 64, 0x80 + c div 64 mod 64,
            0x80 + c mod 64])"

text \<open>The bytes that \<^verbatim>\<open>proxyReq.write(text)\<close> puts on the wire.\<close>

definition write_utf8 :: "nat list \<Rightarrow> char list" where
  "write_utf8 text = map char_of (concat (map utf8_encode text))"

text \<open>
  \<^verbatim>\<open>String.prototype.trim\<close> removes the white space and line terminators of ECMAScript
  from both ends.
\<close>

definition js_whitespace :: "nat \<Rightarrow> bool" where
  "js_whitespace c =
     (c \<in> set [0x09, 0x0A, 0x0B, 0x0C, 0x0D, 0x20, 0xA0, 0x1680, 0x2028, 0x2029, 0x202F,
                0x205F, 0x3000, 0xFEFF]
      \<or> (0x2000 \<le> c \<and> c \<le> 0x200A))"

definition js_trim :: "nat list \<Rightarrow> nat list" where
  "js_trim text = rev (dropWhile js_whitespace (rev (dropWhile js_whitespace text)))"

section \<open>What the code does with the body\<close>

text \<open>
  \<^verbatim>\<open>req.body?.query\<close>: \<^verbatim>\<open>undefined\<close> for a body that is \<^verbatim>\<open>undefined\<close>, the
  property of an object, and \<^verbatim>\<open>undefined\<close> for a \<^verbatim>\<open>Buffer\<close>, which has no such property.
  \<^verbatim>\<open>req.query.query\<close> is the same lookup in the parsed URL parameters.
\<close>

fun member :: "(string \<rightharpoonup> js_value) \<Rightarrow> string \<Rightarrow> js_value" where
  "member obj k = (case obj k of None \<Rightarrow> JUndefined | Some v \<Rightarrow> v)"

fun optional_member :: "body \<Rightarrow> string \<Rightarrow> js_value" where
  "optional_member Body_undefined k = JUndefined"
| "optional_member (Body_form kvs) k = member (map_of kvs) k"
| "optional_member (Body_object kvs) k = member (map_of kvs) k"
| "optional_member (Body_buffer buf) k = JUndefined"

text \<open>
  \<^verbatim>\<open>Object.keys(req.body).length\<close>: a \<^verbatim>\<open>TypeError\<close> for \<^verbatim>\<open>undefined\<close>, the number of
  properties of an object, and the number of indices of a \<^verbatim>\<open>Buffer\<close>.
\<close>

fun Object_keys_length :: "body \<Rightarrow> js_error + nat" where
  "Object_keys_length Body_undefined =
     Inl (new_TypeError ''Cannot convert undefined or null to object'')"
| "Object_keys_length (Body_form kvs) = Inr (length (remdups (map fst kvs)))"
| "Object_keys_length (Body_object kvs) = Inr (length (remdups (map fst kvs)))"
| "Object_keys_length (Body_buffer buf) = Inr (length buf)"

text \<open>
  \<^verbatim>\<open>req.body.toString()\<close>: a \<^verbatim>\<open>TypeError\<close> for \<^verbatim>\<open>undefined\<close>; a \<^verbatim>\<open>TypeError\<close> for
  a decoded form, which inherits no \<^verbatim>\<open>toString\<close> and whose own fields are values, not
  functions; for an ordinary object the text of \<^verbatim>\<open>Object.prototype.toString\<close>, unless the
  object has a property of that name of its own; for a \<^verbatim>\<open>Buffer\<close> the decoded bytes.
\<close>

fun body_toString :: "body \<Rightarrow> js_error + nat list" where
  "body_toString Body_undefined =
     Inl (new_TypeError ''Cannot read properties of undefined (reading 'toString')'')"
| "body_toString (Body_form kvs) =
     Inl (new_TypeError ''req.body.toString is not a function'')"
| "body_toString (Body_object kvs) =
     (case map_of kvs ''toString'' of
        None \<Rightarrow> Inr (map of_char ''[object Object]'')
      | Some v \<Rightarrow> Inl (new_TypeError ''req.body.toString is not a function''))"
| "body_toString (Body_buffer buf) = Inr (Buffer_toString buf)"

text \<open>\<^verbatim>\<open>!body\<close>: of the four shapes only \<^verbatim>\<open>undefined\<close> is falsy.\<close>

fun truthy_body :: "body \<Rightarrow> bool" where
  "truthy_body Body_undefined = False"
| "truthy_body (Body_form kvs) = True"
| "truthy_body (Body_object kvs) = True"
| "truthy_body (Body_buffer buf) = True"

text \<open>
  \<^verbatim>\<open>Buffer.byteLength(body)\<close> is the number of bytes of a \<^verbatim>\<open>Buffer\<close>; for a value that is
  neither a string nor a buffer it throws a \<^verbatim>\<open>TypeError\<close>, here \<open>None\<close>. That error is
  thrown inside the proxy's event and its text reaches no response.
\<close>

fun Buffer_byteLength :: "body \<Rightarrow> nat option" where
  "Buffer_byteLength (Body_buffer buf) = Some (length buf)"
| "Buffer_byteLength Body_undefined = None"
| "Buffer_byteLength (Body_form kvs) = None"
| "Buffer_byteLength (Body_object kvs) = None"

section \<open>The checks of \<^verbatim>\<open>app.js\<close>\<close>

definition ensureGETSparqlParams :: "request \<Rightarrow> js_error + unit" where
  "ensureGETSparqlParams req =
     (if \<not> truthy (member (query req) ''query'') then
        Inl (new_Error
          ''When executing a GET request, the query should be supplied as a URL query parameter.'')
      else
        (case Object_keys_length (body req) of
           Inl err \<Rightarrow> Inl err
         | Inr n \<Rightarrow>
             if n \<noteq> 0 then
               Inl (new_Error ''When executing a GET request, the body needs to be empty'')
             else Inr ()))"

definition ensurePOSTSparqlParams :: "request \<Rightarrow> js_error + unit" where
  "ensurePOSTSparqlParams req =
     (let contentType = req_get req ''Content-Type'' in
      if regexp_test form_urlencoded contentType then
        (if \<not> truthy (optional_member (body req) ''query'') then
           Inl ((new_Error
             ''When querying with POST and Content-Type \"application/x-www-form-urlencoded\", you must supply the query as a form parameter.'')
             \<lparr>status := Some 400\<rparr>)
         else Inr ())
      else if regexp_test sparql_query contentType then
        (case body_toString (body req) of
           Inl err \<Rightarrow> Inl err
         | Inr text \<Rightarrow>
             if js_trim text = [] then
               Inl ((new_Error
                 ''When querying with POST and Content-Type \"application/sparql-query\", you must supply the query as the body.'')
                 \<lparr>status := Some 400\<rparr>)
             else Inr ())
      else
        Inl ((new_Error
          ''Content-Type not valid, only \"application/x-www-form-urlencoded\" or \"application/sparql-query\" are accepted'')
          \<lparr>status := Some 400\<rparr>))"

text \<open>The \<^verbatim>\<open>switch\<close> on the method: the first phase of \<^verbatim>\<open>ensureSparqlParams\<close>.\<close>

definition shape_check :: "request \<Rightarrow> js_error + unit" where
  "shape_check req =
     (if req_method req = ''POST'' then ensurePOSTSparqlParams req
      else if req_method req = ''GET'' then ensureGETSparqlParams req
      else
        Inl ((new_Error ''Not a correctly formed request for SPARQL queries.'')
          \<lparr>status := Some 401\<rparr>))"

definition ensureSparqlParams :: "request \<Rightarrow> js_error + unit" where
  "ensureSparqlParams req =
     (case shape_check req of
        Inl err \<Rightarrow> Inl err
      | Inr u \<Rightarrow>
          if \<not> truthy_string (req_get req ''Mu-Session-Id'') then
            Inl ((new_Error
              ''The required \"mu-session-id\" header could not be found. This is usually attached to the request by the mu-identifier.'')
              \<lparr>status := Some 401\<rparr>)
          else Inr ())"

section \<open>Authorization\<close>

text \<open>
  What a JavaScript function can throw, or a promise be rejected with: an \<^verbatim>\<open>Error\<close>
  object (any other object reaches the error handler as an \<^verbatim>\<open>Error\<close> does and is taken
  by its message and status), or a value that is not an object. \<^verbatim>\<open>Promise.reject()\<close>
  and \<^verbatim>\<open>setTimeout(reject, ms)\<close> reject with \<^verbatim>\<open>undefined\<close>.
\<close>

datatype thrown =
    Thrown_error js_error
  | Thrown_undefined
  | Thrown_null
  | Thrown_bool bool
  | Thrown_number int
  | Thrown_string string

fun thrown_truthy :: "thrown \<Rightarrow> bool" where
  "thrown_truthy (Thrown_error err) = True"
| "thrown_truthy Thrown_undefined = False"
| "thrown_truthy Thrown_null = False"
| "thrown_truthy (Thrown_bool b) = b"
| "thrown_truthy (Thrown_number n) = (n \<noteq> 0)"
| "thrown_truthy (Thrown_string s) = (s \<noteq> [])"

text \<open>
  The configured \<^verbatim>\<open>isAuthorized\<close> either returns a value or throws one. Its argument
  is \<^verbatim>\<open>session.value\<close>, a string, or \<^verbatim>\<open>undefined\<close> (\<open>None\<close>) if the named node were
  made from a header that is not there.
\<close>

datatype auth_result = Returns js_value | Throws thrown

type_synonym authorizer = "string option \<Rightarrow> auth_result"

text \<open>A call of the configured function: what it answers, and the record of the call.\<close>

definition called :: "authorizer \<Rightarrow> string option \<Rightarrow> auth_result \<times> string option list" where
  "called isAuthorized sessionUri = (isAuthorized sessionUri, [sessionUri])"

record named_node =
  nn_value :: "string option"

definition namedNode :: "string option \<Rightarrow> named_node" where
  "namedNode iri = \<lparr>nn_value = iri\<rparr>"

text \<open>
  \<^verbatim>\<open>ensureAuthorized\<close> makes the one call of \<^verbatim>\<open>isAuthorized\<close>, with \<^verbatim>\<open>session.value\<close>.
  What the function throws passes through the \<^verbatim>\<open>await\<close> unchanged. The second component
  is the record of the calls made.
\<close>

definition ensureAuthorized ::
  "authorizer \<Rightarrow> named_node \<Rightarrow> (thrown + unit) \<times> string option list" where
  "ensureAuthorized isAuthorized session =
     (let (answer, calls) = called isAuthorized (nn_value session) in
      (case answer of
         Throws err \<Rightarrow> Inl err
       | Returns isAuth \<Rightarrow>
           if \<not> truthy isAuth then
             Inl (Thrown_error
               ((new_Error ''This session is not authorized to execute SPARQL queries.'')
                 \<lparr>status := Some 403\<rparr>))
           else Inr (),
       calls))"

section \<open>The three layers\<close>

text \<open>
  The first middleware calls \<^verbatim>\<open>next()\<close>, or \<^verbatim>\<open>next(err)\<close> with whatever it caught;
  \<open>passed_on\<close> is the argument of \<^verbatim>\<open>next\<close> (\<open>None\<close> for the call without one), and
  \<open>asked\<close> lists the arguments \<^verbatim>\<open>isAuthorized\<close> was called with.
\<close>

record checked =
  passed_on :: "thrown option"
  asked :: "string option list"

definition checking_middleware :: "authorizer \<Rightarrow> request \<Rightarrow> checked" where
  "checking_middleware isAuthorized req =
     (case ensureSparqlParams req of
        Inl err \<Rightarrow> \<lparr>passed_on = Some (Thrown_error err), asked = []\<rparr>
      | Inr u \<Rightarrow>
          (let session = namedNode (req_get req ''Mu-Session-Id'');
               (outcome, calls) = ensureAuthorized isAuthorized session in
           case outcome of
             Inl err \<Rightarrow> \<lparr>passed_on = Some err, asked = calls\<rparr>
           | Inr u' \<Rightarrow> \<lparr>passed_on = None, asked = calls\<rparr>))"

text \<open>
  What \<^verbatim>\<open>onProxyReq\<close> does to the outgoing request: nothing, or it sets
  \<^verbatim>\<open>Content-Length\<close> and writes bytes, or it leaves the body to \<^verbatim>\<open>fixRequestBody\<close> of
  the proxy library, or it throws. The proxy copies the headers of the incoming request,
  so \<^verbatim>\<open>proxyReq.getHeader('Content-Type')\<close> is the \<^verbatim>\<open>Content-Type\<close> of the request.
\<close>

datatype outgoing =
    Untouched
  | Rewritten (content_length: nat) (written: "char list")
  | By_fixRequestBody
  | Hook_throws

definition onProxyReq :: "request \<Rightarrow> outgoing" where
  "onProxyReq req =
     (let b = body req in
      if \<not> truthy_body b then Untouched
      else
        (let contentType = req_get req ''Content-Type'' in
         if regexp_test sparql_query contentType then
           (case Buffer_byteLength b of
              None \<Rightarrow> Hook_throws
            | Some n \<Rightarrow>
                (case body_toString b of
                   Inl err \<Rightarrow> Hook_throws
                 | Inr text \<Rightarrow> Rewritten n (write_utf8 text)))
         else By_fixRequestBody))"

text \<open>
  \<^verbatim>\<open>app.use('/sparql', ...)\<close> matches the paths that are \<^verbatim>\<open>/sparql\<close> or start with
  \<^verbatim>\<open>/sparql/\<close>, without regard to case.
\<close>

definition mounted_at :: "string \<Rightarrow> string \<Rightarrow> bool" where
  "mounted_at mount p =
     (let p' = map ascii_lower p; m = map ascii_lower mount
      in p' = m \<or> prefix (m @ ''/'') p')"

text \<open>
  The answer to a request: the error handler's response (the status and the message, which
  it renders as JSON-LD), the request handed to the proxy, the 404 of Express when no layer
  takes the request, or no response at all, when the error handler itself throws.
\<close>

datatype outcome =
    Error_response (response_status: int) (response_message: string)
  | Proxied outgoing
  | Not_found
  | No_response

text \<open>
  \<^verbatim>\<open>err.status\<close> and \<^verbatim>\<open>err.message\<close> of what was thrown. A value that is not an object
  has neither, and \<^verbatim>\<open>literal(undefined)\<close> is the text \<^verbatim>\<open>undefined\<close>.
\<close>

fun thrown_status :: "thrown \<Rightarrow> int option" where
  "thrown_status (Thrown_error err) = status err"
| "thrown_status other = None"

fun thrown_message :: "thrown \<Rightarrow> string" where
  "thrown_message (Thrown_error err) = message err"
| "thrown_message other = ''undefined''"

text \<open>\<^verbatim>\<open>err.status || 500\<close>.\<close>

definition status_or_500 :: "thrown \<Rightarrow> int" where
  "status_or_500 err =
     (case thrown_status err of None \<Rightarrow> 500 | Some n \<Rightarrow> if n = 0 then 500 else n)"

text \<open>
  The error handler: \<^verbatim>\<open>res.status(err.status || 500)\<close> and \<^verbatim>\<open>res.json\<close> of the rendered
  error. A status outside 100 to 999 is refused with a \<^verbatim>\<open>RangeError\<close>, which leaves the
  \<^verbatim>\<open>async\<close> handler as a rejection that nothing catches: no response is sent.
\<close>

definition error_handler :: "thrown \<Rightarrow> outcome" where
  "error_handler err =
     (let code = status_or_500 err in
      if 100 \<le> code \<and> code \<le> 999 then Error_response code (thrown_message err)
      else No_response)"

text \<open>The proxy layer, for a request that arrives there without an error.\<close>

definition proxy_layer :: "request \<Rightarrow> outcome" where
  "proxy_layer req =
     (if mounted_at ''/sparql'' (path req) then Proxied (onProxyReq req) else Not_found)"

text \<open>
  What Express does after \<^verbatim>\<open>next(err)\<close>: the string \<^verbatim>\<open>route\<close> counts as no error, the
  string \<^verbatim>\<open>router\<close> leaves the router, which answers 404, and for the rest the
  truthiness of \<^verbatim>\<open>err\<close> decides: with an error the proxy is skipped and the error
  handler runs, without one the proxy layer runs and the error handler is skipped.
\<close>

definition after_next :: "thrown option \<Rightarrow> request \<Rightarrow> outcome" where
  "after_next err req =
     (let layerError = (if err = Some (Thrown_string ''route'') then None else err) in
      if layerError = Some (Thrown_string ''router'') then Not_found
      else
        (case layerError of
           None \<Rightarrow> proxy_layer req
         | Some e \<Rightarrow> if thrown_truthy e then error_handler e else proxy_layer req))"

record run =
  result :: outcome
  authorizer_calls :: "string option list"

definition app :: "authorizer \<Rightarrow> request \<Rightarrow> run" where
  "app isAuthorized req =
     (let c = checking_middleware isAuthorized req in
      \<lparr>result = after_next (passed_on c) req, authorizer_calls = asked c\<rparr>)"

text \<open>Whether the request reached the proxy, and with it the upstream.\<close>

fun forwarded :: "outcome \<Rightarrow> bool" where
  "forwarded (Proxied out) = True"
| "forwarded other = False"

section \<open>Requests and authorization functions used as examples\<close>

text \<open>
  The request of the README's direct POST: a query as the raw body, the session header set
  by the identifier.
\<close>

definition direct_post :: request where
  "direct_post =
     \<lparr>req_method = ''POST'', path = ''/sparql'',
      headers = [''mu-session-id'' \<mapsto> ''http://example/sessions/1'',
                 ''content-type'' \<mapsto> ''application/sparql-query''],
      query = Map.empty,
      body = Body_buffer ''SELECT * WHERE { ?s ?p ?o } LIMIT 1''\<rparr>"

text \<open>A form POST whose form has no \<^verbatim>\<open>query\<close> field.\<close>

definition form_post_without_query :: request where
  "form_post_without_query =
     \<lparr>req_method = ''POST'', path = ''/sparql'',
      headers = [''mu-session-id'' \<mapsto> ''http://example/sessions/1'',
                 ''content-type'' \<mapsto> ''application/x-www-form-urlencoded; charset=UTF-8''],
      query = Map.empty,
      body = Body_form [(''update'', JString ''DROP ALL'')]\<rparr>"

text \<open>A form POST with the query as a form field and a \<^verbatim>\<open>charset\<close> after the type.\<close>

definition form_post :: request where
  "form_post =
     \<lparr>req_method = ''POST'', path = ''/sparql'',
      headers = [''mu-session-id'' \<mapsto> ''http://example/sessions/1'',
                 ''content-type'' \<mapsto> ''application/x-www-form-urlencoded; charset=UTF-8''],
      query = Map.empty,
      body = Body_form [(''query'', JString ''SELECT * WHERE { ?s ?p ?o } LIMIT 1'')]\<rparr>"

text \<open>The direct POST with a \<^verbatim>\<open>charset\<close> after the type.\<close>

definition direct_post_charset :: request where
  "direct_post_charset =
     direct_post\<lparr>headers :=
       [''mu-session-id'' \<mapsto> ''http://example/sessions/1'',
        ''content-type'' \<mapsto> ''application/sparql-query; charset=UTF-8'']\<rparr>"

text \<open>A GET without the \<^verbatim>\<open>query\<close> parameter in the URL, and with the session header.\<close>

definition get_without_query :: request where
  "get_without_query =
     \<lparr>req_method = ''GET'', path = ''/sparql'',
      headers = [''mu-session-id'' \<mapsto> ''http://example/sessions/1''],
      query = Map.empty,
      body = Body_object []\<rparr>"

text \<open>
  A GET with the \<^verbatim>\<open>query\<close> parameter, with a form body of one field, and without the
  session header.
\<close>

definition get_with_body :: request where
  "get_with_body =
     \<lparr>req_method = ''GET'', path = ''/sparql'',
      headers = [''content-type'' \<mapsto> ''application/x-www-form-urlencoded''],
      query = [''query'' \<mapsto> JString ''SELECT * WHERE { ?s ?p ?o } LIMIT 1''],
      body = Body_form [(''a'', JString ''1'')]\<rparr>"

text \<open>A request with another method.\<close>

definition delete_request :: request where
  "delete_request =
     \<lparr>req_method = ''DELETE'', path = ''/sparql'',
      headers = [''mu-session-id'' \<mapsto> ''http://example/sessions/1''],
      query = Map.empty,
      body = Body_object []\<rparr>"

text \<open>A direct POST whose body is the single byte \<open>0xFF\<close>, which is not UTF-8.\<close>

definition direct_post_latin1 :: request where
  "direct_post_latin1 = direct_post\<lparr>body := Body_buffer [CHR 0xFF]\<rparr>"

text \<open>
  A direct POST whose \<^verbatim>\<open>Content-Type\<close> names the raw type and, in a parameter, the
  form type as well.
\<close>

definition direct_post_both_types :: request where
  "direct_post_both_types =
     direct_post\<lparr>headers :=
       [''mu-session-id'' \<mapsto> ''http://example/sessions/1'',
        ''content-type'' \<mapsto>
          ''application/sparql-query; alt=application/x-www-form-urlencoded'']\<rparr>"

text \<open>A POST without any \<^verbatim>\<open>Content-Type\<close>.\<close>

definition post_without_type :: request where
  "post_without_type =
     direct_post\<lparr>headers := [''mu-session-id'' \<mapsto> ''http://example/sessions/1'']\<rparr>"

definition allow :: authorizer where
  "allow sessionUri = Returns (JBool True)"

definition deny :: authorizer where
  "deny sessionUri = Returns (JBool False)"



text \<open>
  An authorization function whose promise is rejected without a reason, as that of a
  time limit written \<^verbatim>\<open>setTimeout(reject, ms)\<close> is.
\<close>

definition rejecting_without_reason :: authorizer where
  "rejecting_without_reason sessionUri = Throws Thrown_undefined"

text \<open>An authorization function that knows one session, by the very text of its identifier.\<close>

definition allow_only :: "string \<Rightarrow> authorizer" where
  "allow_only S sessionUri = Returns (JBool (sessionUri = Some S))"

section \<open>Decoding and encoding again\<close>

lemma mod64: "k < 64 \<Longrightarrow> (x * 64 + k) mod 64 = (k::nat)"
  by simp

lemma div64: "k < 64 \<Longrightarrow> (x * 64 + k) div 64 = (x::nat)"
  by simp

lemma enc1: "b < 0x80 \<Longrightarrow> utf8_encode b = [b]"
  by (simp add: utf8_encode_def)

lemma second_range:
  assumes "second_lo b \<le> b1" "b1 \<le> second_hi b"
  shows "continuation b1"
  using assms by (simp add: second_lo_def second_hi_def continuation_def split: if_splits)

lemma continuation_offset:
  assumes "continuation b"
  obtains j where "b = 0x80 + j" "j < 64"
proof
  show "b = 0x80 + (b - 0x80)" "b - 0x80 < 64"
    using assms by (auto simp: continuation_def)
qed

lemma enc2:
  assumes "0xC2 \<le> b" "b \<le> 0xDF" "continuation b1"
  shows "utf8_encode ((b - 0xC0) * 64 + (b1 - 0x80)) = [b, b1]"
proof -
  define i where "i = b - 0xC0"
  have b: "b = 0xC0 + i" and i: "2 \<le> i" "i < 32"
    using assms by (simp_all add: i_def)
  obtain j where b1: "b1 = 0x80 + j" and j: "j < 64"
    using assms(3) by (rule continuation_offset)
  have c: "0x80 \<le> i * 64 + j" "i * 64 + j < 0x800"
    using i j by simp_all
  have d: "(i * 64 + j) div 64 = i" "(i * 64 + j) mod 64 = j"
    using j by simp_all
  show ?thesis
    using c d by (simp add: utf8_encode_def b b1)
qed

lemma enc3:
  assumes "0xE0 \<le> b" "b \<le> 0xEF" "second_lo b \<le> b1" "b1 \<le> second_hi b" "continuation b2"
  shows "utf8_encode ((b - 0xE0) * 4096 + (b1 - 0x80) * 64 + (b2 - 0x80)) = [b, b1, b2]"
proof -
  define i where "i = b - 0xE0"
  have b: "b = 0xE0 + i" and i: "i < 16"
    using assms by (simp_all add: i_def)
  obtain j where b1: "b1 = 0x80 + j" and j: "j < 64"
    using second_range [OF assms(3,4)] by (rule continuation_offset)
  obtain k where b2: "b2 = 0x80 + k" and k: "k < 64"
    using assms(5) by (rule continuation_offset)
  have big: "i = 0 \<Longrightarrow> 32 \<le> j"
    using assms(3) by (simp add: second_lo_def b b1)
  have c: "0x800 \<le> i * 4096 + j * 64 + k"
    using big by (cases "i = 0") simp_all
  have c': "i * 4096 + j * 64 + k < 0x10000"
    using i j k by simp
  have e: "i * 4096 + j * 64 + k = (i * 64 + j) * 64 + k" by simp
  have d1: "(i * 4096 + j * 64 + k) div 4096 = i"
    using j k by simp
  have "(i * 4096 + j * 64 + k) div 64 = i * 64 + j"
    unfolding e using k by (rule div64)
  then have d2: "(i * 4096 + j * 64 + k) div 64 mod 64 = j"
    using j by simp
  have d3: "(i * 4096 + j * 64 + k) mod 64 = k"
    unfolding e using k by (rule mod64)
  show ?thesis
    using c c' d1 d2 d3 by (simp add: utf8_encode_def b b1 b2)
qed

lemma enc4:
  assumes "0xF0 \<le> b" "b \<le> 0xF4" "second_lo b \<le> b1" "b1 \<le> second_hi b"
    "continuation b2" "continuation b3"
  shows "utf8_encode ((b - 0xF0) * 262144 + (b1 - 0x80) * 4096 + (b2 - 0x80) * 64 + (b3 - 0x80))
         = [b, b1, b2, b3]"
proof -
  define i where "i = b - 0xF0"
  have b: "b = 0xF0 + i"
    using assms by (simp_all add: i_def)
  obtain j where b1: "b1 = 0x80 + j" and j: "j < 64"
    using second_range [OF assms(3,4)] by (rule continuation_offset)
  obtain k where b2: "b2 = 0x80 + k" and k: "k < 64"
    using assms(5) by (rule continuation_offset)
  obtain l where b3: "b3 = 0x80 + l" and l: "l < 64"
    using assms(6) by (rule continuation_offset)
  have big: "i = 0 \<Longrightarrow> 16 \<le> j"
    using assms(3) by (simp add: second_lo_def b b1)
  let ?c = "i * 262144 + j * 4096 + k * 64 + l"
  have c: "0x10000 \<le> ?c"
    using big by (cases "i = 0") simp_all
  have e: "?c = ((i * 64 + j) * 64 + k) * 64 + l" by simp
  have d1: "?c div 262144 = i"
    using j k l by simp
  have e1: "?c div 4096 = i * 64 + j"
    using j k l by simp
  have d2: "?c div 4096 mod 64 = j"
    unfolding e1 using j by simp
  have e2: "?c div 64 = (i * 64 + j) * 64 + k"
    unfolding e using l by (rule div64)
  have d3: "?c div 64 mod 64 = k"
    unfolding e2 using k by (rule mod64)
  have d4: "?c mod 64 = l"
    unfolding e using l by (rule mod64)
  show ?thesis
    using c d1 d2 d3 d4 by (simp add: utf8_encode_def b b1 b2 b3)
qed


lemma scan1: "b < 0x80 \<Longrightarrow> utf8_scan (b # bs) = Some b # utf8_scan bs"
  by simp

lemma scan2:
  "0xC2 \<le> b \<Longrightarrow> b \<le> 0xDF \<Longrightarrow> continuation b1 \<Longrightarrow>
   utf8_scan (b # b1 # r) = Some ((b - 0xC0) * 64 + (b1 - 0x80)) # utf8_scan r"
  by simp

lemma scan3:
  "0xE0 \<le> b \<Longrightarrow> b \<le> 0xEF \<Longrightarrow> second_lo b \<le> b1 \<Longrightarrow> b1 \<le> second_hi b \<Longrightarrow> continuation b2 \<Longrightarrow>
   utf8_scan (b # b1 # b2 # r) =
   Some ((b - 0xE0) * 4096 + (b1 - 0x80) * 64 + (b2 - 0x80)) # utf8_scan r"
  by simp

lemma scan4:
  "0xF0 \<le> b \<Longrightarrow> b \<le> 0xF4 \<Longrightarrow> second_lo b \<le> b1 \<Longrightarrow> b1 \<le> second_hi b \<Longrightarrow> continuation b2 \<Longrightarrow>
   continuation b3 \<Longrightarrow>
   utf8_scan (b # b1 # b2 # b3 # r) =
   Some ((b - 0xF0) * 262144 + (b1 - 0x80) * 4096 + (b2 - 0x80) * 64 + (b3 - 0x80)) # utf8_scan r"
  by simp

lemma scan_cases:
  assumes "None \<notin> set (utf8_scan (b # bs))"
  shows "b < 0x80
    \<or> (\<exists>b1 r. bs = b1 # r \<and> 0xC2 \<le> b \<and> b \<le> 0xDF \<and> continuation b1)
    \<or> (\<exists>b1 b2 r. bs = b1 # b2 # r \<and> 0xE0 \<le> b \<and> b \<le> 0xEF \<and> second_lo b \<le> b1
          \<and> b1 \<le> second_hi b \<and> continuation b2)
    \<or> (\<exists>b1 b2 b3 r. bs = b1 # b2 # b3 # r \<and> 0xF0 \<le> b \<and> b \<le> 0xF4 \<and> second_lo b \<le> b1
          \<and> b1 \<le> second_hi b \<and> continuation b2 \<and> continuation b3)"
  using assms by (simp split: if_splits list.splits)


lemma utf8_roundtrip:
  "None \<notin> set (utf8_scan bs) \<Longrightarrow> concat (map utf8_encode (map code_point (utf8_scan bs))) = bs"
proof (induction bs rule: length_induct)
  case (1 bs)
  show ?case
  proof (cases bs)
    case Nil
    then show ?thesis by simp
  next
    case (Cons b bs')
    note wf = "1.prems" [unfolded Cons]
    have IH: "concat (map utf8_encode (map code_point (utf8_scan r))) = r"
      if "length r < length bs" "None \<notin> set (utf8_scan r)" for r
      using "1.IH" that by blast
    from scan_cases [OF wf] consider
        (one) "b < 0x80"
      | (two) b1 r where "bs' = b1 # r" "0xC2 \<le> b" "b \<le> 0xDF" "continuation b1"
      | (three) b1 b2 r where "bs' = b1 # b2 # r" "0xE0 \<le> b" "b \<le> 0xEF" "second_lo b \<le> b1"
          "b1 \<le> second_hi b" "continuation b2"
      | (four) b1 b2 b3 r where "bs' = b1 # b2 # b3 # r" "0xF0 \<le> b" "b \<le> 0xF4"
          "second_lo b \<le> b1" "b1 \<le> second_hi b" "continuation b2" "continuation b3"
      by blast
    then show ?thesis
    proof cases
      case one
      have s: "utf8_scan bs = Some b # utf8_scan bs'"
        unfolding Cons using one by (rule scan1)
      have "None \<notin> set (utf8_scan bs')"
        using "1.prems" unfolding s by simp
      then have "concat (map utf8_encode (map code_point (utf8_scan bs'))) = bs'"
        using IH [of bs'] Cons by simp
      then show ?thesis
        unfolding s using one by (simp add: enc1 Cons)
    next
      case two
      have s: "utf8_scan bs = Some ((b - 0xC0) * 64 + (b1 - 0x80)) # utf8_scan r"
        unfolding Cons two(1) using two(2-) by (rule scan2)
      have "None \<notin> set (utf8_scan r)"
        using "1.prems" unfolding s by simp
      then have "concat (map utf8_encode (map code_point (utf8_scan r))) = r"
        using IH [of r] Cons two(1) by simp
      then show ?thesis
        unfolding s using two(2-) by (simp add: enc2 Cons two(1))
    next
      case three
      have s: "utf8_scan bs =
          Some ((b - 0xE0) * 4096 + (b1 - 0x80) * 64 + (b2 - 0x80)) # utf8_scan r"
        unfolding Cons three(1) using three(2-) by (rule scan3)
      have "None \<notin> set (utf8_scan r)"
        using "1.prems" unfolding s by simp
      then have "concat (map utf8_encode (map code_point (utf8_scan r))) = r"
        using IH [of r] Cons three(1) by simp
      then show ?thesis
        unfolding s using three(2-) by (simp add: enc3 Cons three(1))
    next
      case four
      have s: "utf8_scan bs =
          Some ((b - 0xF0) * 262144 + (b1 - 0x80) * 4096 + (b2 - 0x80) * 64 + (b3 - 0x80))
            # utf8_scan r"
        unfolding Cons four(1) using four(2-) by (rule scan4)
      have "None \<notin> set (utf8_scan r)"
        using "1.prems" unfolding s by simp
      then have "concat (map utf8_encode (map code_point (utf8_scan r))) = r"
        using IH [of r] Cons four(1) by simp
      then show ?thesis
        unfolding s using four(2-) by (simp add: enc4 Cons four(1))
    qed
  qed
qed

section \<open>Evaluation and the shape of a run\<close>

lemmas byte_simps = char_of_def bit_Suc_0_iff less_eq_char_def
lemmas text_simps = Buffer_toString_def continuation_def second_lo_def second_hi_def
  write_utf8_def utf8_encode_def js_trim_def js_whitespace_def
lemmas request_simps = req_get_def ascii_lower_def regexp_test_def sublist_Cons_right
  form_urlencoded_def sparql_query_def mounted_at_def
lemmas check_simps = ensureGETSparqlParams_def ensurePOSTSparqlParams_def shape_check_def
  ensureSparqlParams_def called_def ensureAuthorized_def namedNode_def checking_middleware_def
  onProxyReq_def proxy_layer_def after_next_def app_def error_handler_def status_or_500_def
  new_Error_def new_TypeError_def
lemmas eval_simps = byte_simps text_simps request_simps check_simps

lemma write_utf8_toString:
  assumes "well_formed_utf8 buf"
  shows "write_utf8 (Buffer_toString buf) = buf"
proof -
  have "concat (map utf8_encode (map code_point (utf8_scan (map of_char buf)))) = map of_char buf"
    using assms unfolding well_formed_utf8_def by (rule utf8_roundtrip)
  then show ?thesis
    by (simp add: write_utf8_def Buffer_toString_def comp_def)
qed

lemma session_header_name: "map ascii_lower ''Mu-Session-Id'' = ''mu-session-id''"
  by (simp add: ascii_lower_def byte_simps)

lemma req_get_session: "req_get req ''Mu-Session-Id'' = headers req ''mu-session-id''"
  by (simp only: req_get_def session_header_name)

lemma regexp_test_iff: "regexp_test pat x \<longleftrightarrow> (\<exists>u v. String_of x = u @ pat @ v)"
  by (simp add: regexp_test_def sublist_def)

text \<open>The two phases of \<^verbatim>\<open>ensureSparqlParams\<close>.\<close>

lemma shape_error_first:
  "shape_check req = Inl err \<Longrightarrow> ensureSparqlParams req = Inl err"
  by (simp add: ensureSparqlParams_def)

lemma missing_session_second:
  "shape_check req = Inr u \<Longrightarrow> \<not> truthy_string (req_get req ''Mu-Session-Id'') \<Longrightarrow>
   \<exists>msg. ensureSparqlParams req = Inl \<lparr>message = msg, status = Some 401\<rparr>"
  by (simp add: ensureSparqlParams_def new_Error_def)

lemma ensureSparqlParams_Inr:
  "ensureSparqlParams req = Inr u \<longleftrightarrow>
     shape_check req = Inr () \<and> truthy_string (req_get req ''Mu-Session-Id'')"
  by (auto simp: ensureSparqlParams_def split: sum.splits)

text \<open>What \<^verbatim>\<open>ensureAuthorized\<close> makes of the three answers of \<^verbatim>\<open>isAuthorized\<close>.\<close>

lemma ensureAuthorized_truthy:
  "isAuthorized (nn_value session) = Returns v \<Longrightarrow> truthy v \<Longrightarrow>
   ensureAuthorized isAuthorized session = (Inr (), [nn_value session])"
  by (simp add: ensureAuthorized_def called_def)

lemma ensureAuthorized_falsy:
  "isAuthorized (nn_value session) = Returns v \<Longrightarrow> \<not> truthy v \<Longrightarrow>
   ensureAuthorized isAuthorized session =
     (Inl (Thrown_error
        \<lparr>message = ''This session is not authorized to execute SPARQL queries.'',
         status = Some 403\<rparr>),
      [nn_value session])"
  by (simp add: ensureAuthorized_def called_def new_Error_def)

lemma ensureAuthorized_throws:
  "isAuthorized (nn_value session) = Throws err \<Longrightarrow>
   ensureAuthorized isAuthorized session = (Inl err, [nn_value session])"
  by (simp add: ensureAuthorized_def called_def)

text \<open>The answer of the error handler to the errors that the code itself makes.\<close>

lemma error_handler_without_status:
  "error_handler (Thrown_error \<lparr>message = msg, status = None\<rparr>) = Error_response 500 msg"
  by (simp add: error_handler_def status_or_500_def)

lemma error_handler_400:
  "error_handler (Thrown_error \<lparr>message = msg, status = Some 400\<rparr>) = Error_response 400 msg"
  by (simp add: error_handler_def status_or_500_def)

lemma error_handler_401:
  "error_handler (Thrown_error \<lparr>message = msg, status = Some 401\<rparr>) = Error_response 401 msg"
  by (simp add: error_handler_def status_or_500_def)

lemma error_handler_403:
  "error_handler (Thrown_error \<lparr>message = msg, status = Some 403\<rparr>) = Error_response 403 msg"
  by (simp add: error_handler_def status_or_500_def)

lemma after_next_error:
  "after_next (Some (Thrown_error err)) req = error_handler (Thrown_error err)"
  by (simp add: after_next_def)

lemma not_forwarded_error_handler: "\<not> forwarded (error_handler err)"
  by (simp add: error_handler_def Let_def)

text \<open>A run, by the outcome of the validation.\<close>

lemma app_rejects:
  "ensureSparqlParams req = Inl err \<Longrightarrow>
   app isAuthorized req =
     \<lparr>result = error_handler (Thrown_error err), authorizer_calls = []\<rparr>"
  by (simp add: app_def checking_middleware_def after_next_error)

lemma app_asks:
  assumes "ensureSparqlParams req = Inr u"
  shows "app isAuthorized req =
     \<lparr>result =
        (case isAuthorized (req_get req ''Mu-Session-Id'') of
           Returns v \<Rightarrow>
             if truthy v then after_next None req
             else Error_response 403 ''This session is not authorized to execute SPARQL queries.''
         | Throws err \<Rightarrow> after_next (Some err) req),
      authorizer_calls = [req_get req ''Mu-Session-Id'']\<rparr>"
proof (cases "isAuthorized (req_get req ''Mu-Session-Id'')")
  case (Returns v)
  then show ?thesis
    using assms
    by (cases "truthy v")
      (simp_all add: app_def checking_middleware_def namedNode_def ensureAuthorized_truthy
        ensureAuthorized_falsy after_next_error error_handler_403)
next
  case (Throws err)
  then show ?thesis
    using assms
    by (simp add: app_def checking_middleware_def namedNode_def ensureAuthorized_throws)
qed

text \<open>
  When a request is forwarded: it passed the validation, it is for the mount point, and
  \<^verbatim>\<open>isAuthorized\<close> returned a truthy value or threw a value that Express takes for no
  error.
\<close>

lemma forwarded_after_next:
  "forwarded (after_next err req) \<longleftrightarrow>
     mounted_at ''/sparql'' (path req)
     \<and> (case err of
          None \<Rightarrow> True
        | Some e \<Rightarrow> e = Thrown_string ''route'' \<or> \<not> thrown_truthy e)"
  by (cases err)
    (auto simp: after_next_def proxy_layer_def not_forwarded_error_handler)

lemma forwarded_iff:
  "forwarded (result (app isAuthorized req)) \<longleftrightarrow>
     ensureSparqlParams req = Inr ()
     \<and> mounted_at ''/sparql'' (path req)
     \<and> (case isAuthorized (req_get req ''Mu-Session-Id'') of
          Returns v \<Rightarrow> truthy v
        | Throws e \<Rightarrow> e = Thrown_string ''route'' \<or> \<not> thrown_truthy e)"
proof (cases "ensureSparqlParams req")
  case (Inl err)
  then show ?thesis
    by (simp add: app_rejects not_forwarded_error_handler)
next
  case (Inr u)
  then show ?thesis
    by (cases "isAuthorized (req_get req ''Mu-Session-Id'')")
      (simp_all add: app_asks forwarded_after_next)
qed

text \<open>
  The status of a shape error: 400 for a POST whose body can be read as text, none for a
  GET, since \<^verbatim>\<open>ensureGETSparqlParams\<close> never sets one.
\<close>

lemma post_shape_error_is_400:
  assumes "req_method req = ''POST''"
    and "shape_check req = Inl err"
    and "body_toString (body req) = Inr text"
  shows "status err = Some 400"
  using assms
  by (auto simp: shape_check_def ensurePOSTSparqlParams_def new_Error_def Let_def
      split: if_splits)

lemma get_shape_error_has_no_status:
  assumes "req_method req = ''GET''"
    and "shape_check req = Inl err"
  shows "status err = None"
proof -
  have "status e = None" if "Object_keys_length b = Inl e" for b e
    using that by (cases b) (auto simp: new_TypeError_def)
  then show ?thesis
    using assms
    by (auto simp: shape_check_def ensureGETSparqlParams_def new_Error_def
        split: if_splits sum.splits)
qed

text \<open>A form without the \<^verbatim>\<open>query\<close> field, or with an empty one, has no truthy \<^verbatim>\<open>query\<close>.\<close>

lemma without_query_field:
  assumes "map_of kvs ''query'' = None \<or> map_of kvs ''query'' = Some (JString [])"
  shows "\<not> truthy (optional_member (Body_form kvs) ''query'')"
    and "\<not> truthy (optional_member (Body_object kvs) ''query'')"
  using assms by auto

text \<open>
  What the hook writes for a forwarded raw body: \<^verbatim>\<open>Content-Length\<close> is the number of
  bytes of the body, and the bytes written are the body decoded and encoded again, which
  for well-formed UTF-8 are the bytes of the body.
\<close>

lemma raw_body_is_forwarded:
  assumes "result (app isAuthorized req) = Proxied out"
    and "body req = Body_buffer buf"
    and "regexp_test sparql_query (req_get req ''Content-Type'')"
  shows "out = Rewritten (length buf) (write_utf8 (Buffer_toString buf))
         \<and> (well_formed_utf8 buf \<longrightarrow> out = Rewritten (length buf) buf)"
proof -
  have "forwarded (result (app isAuthorized req))"
    using assms(1) by simp
  then have v: "ensureSparqlParams req = Inr ()" and m: "mounted_at ''/sparql'' (path req)"
    by (simp_all add: forwarded_iff)
  have "result (app isAuthorized req) = Proxied (onProxyReq req)"
    using assms(1) m
    by (cases "isAuthorized (req_get req ''Mu-Session-Id'')")
      (auto simp: app_asks [OF v] after_next_def proxy_layer_def error_handler_def Let_def
        split: if_splits option.splits)
  then have "out = onProxyReq req"
    using assms(1) by simp
  then have "out = Rewritten (length buf) (write_utf8 (Buffer_toString buf))"
    using assms(2,3) by (simp add: onProxyReq_def)
  then show ?thesis
    by (simp add: write_utf8_toString)
qed

section \<open>The claims\<close>

text \<open>
  C1. A GET without the \<^verbatim>\<open>query\<close> parameter should be answered 400, as the README
  says and as the POST checks do. \<^verbatim>\<open>ensureGETSparqlParams\<close> throws its errors without a
  \<^verbatim>\<open>status\<close>, so the error handler answers 500: here for a GET that has the session
  header and an empty body and no \<^verbatim>\<open>query\<close> parameter.
\<close>

theorem get_without_query_is_answered_500:
  "ensureSparqlParams get_without_query =
     Inl \<lparr>message =
            ''When executing a GET request, the query should be supplied as a URL query parameter.'',
          status = None\<rparr>
   \<and> result (app allow get_without_query) =
     Error_response 500
       ''When executing a GET request, the query should be supplied as a URL query parameter.''"
  by (simp add: eval_simps get_without_query_def allow_def)

text \<open>
  C2. The shape is checked before the session header, and a request with a malformed body
  and no session header should be answered with the 400 of the shape error. For a GET
  with a body the shape error has no \<^verbatim>\<open>status\<close>, as in C1, and the answer is 500.
\<close>

theorem get_with_body_is_answered_500:
  "req_get get_with_body ''Mu-Session-Id'' = None
   \<and> shape_check get_with_body =
     Inl \<lparr>message = ''When executing a GET request, the body needs to be empty'',
          status = None\<rparr>
   \<and> result (app allow get_with_body) =
     Error_response 500 ''When executing a GET request, the body needs to be empty''"
  by (simp add: eval_simps get_with_body_def allow_def)




text \<open>
  C4. A request should reach the proxy only if the validation threw nothing and
  \<^verbatim>\<open>isAuthorized\<close> returned a truthy value. The middleware hands whatever it catches to
  \<^verbatim>\<open>next\<close>, and Express takes a falsy argument of \<^verbatim>\<open>next\<close> for no error: when the promise
  of \<^verbatim>\<open>isAuthorized\<close> is rejected without a reason, \<^verbatim>\<open>next(undefined)\<close> runs the proxy
  layer, and the request is forwarded although \<^verbatim>\<open>isAuthorized\<close> returned nothing.
\<close>

theorem rejection_without_reason_is_forwarded:
  "ensureSparqlParams direct_post = Inr ()
   \<and> rejecting_without_reason (req_get direct_post ''Mu-Session-Id'') = Throws Thrown_undefined
   \<and> passed_on (checking_middleware rejecting_without_reason direct_post) = Some Thrown_undefined
   \<and> result (app rejecting_without_reason direct_post) =
       Proxied (Rewritten 35 ''SELECT * WHERE { ?s ?p ?o } LIMIT 1'')
   \<and> forwarded (result (app rejecting_without_reason direct_post))"
  by (simp add: eval_simps direct_post_def rejecting_without_reason_def)

text \<open>
  C5. When the request passes the checks and \<^verbatim>\<open>isAuthorized\<close> returns a falsy value
  for its session, the answer is 403 and the request is not forwarded.
\<close>

theorem denied_session_is_answered_403:
  assumes "ensureSparqlParams req = Inr ()"
    and "req_get req ''Mu-Session-Id'' = Some S"
    and "isAuthorized (Some S) = Returns v"
    and "\<not> truthy v"
  shows "result (app isAuthorized req) =
           Error_response 403 ''This session is not authorized to execute SPARQL queries.''
         \<and> \<not> forwarded (result (app isAuthorized req))"
  using assms by (simp add: app_asks)

theorem denied_session_is_answered_403_witness:
  "ensureSparqlParams direct_post = Inr ()
   \<and> req_get direct_post ''Mu-Session-Id'' = Some ''http://example/sessions/1''
   \<and> deny (Some ''http://example/sessions/1'') = Returns (JBool False)
   \<and> \<not> truthy (JBool False)
   \<and> result (app deny direct_post) =
       Error_response 403 ''This session is not authorized to execute SPARQL queries.''
   \<and> \<not> forwarded (result (app deny direct_post))"
proof -
  have valid: "ensureSparqlParams direct_post = Inr ()"
    by (simp add: eval_simps direct_post_def)
  have session: "req_get direct_post ''Mu-Session-Id'' = Some ''http://example/sessions/1''"
    by (simp add: eval_simps direct_post_def)
  have denies: "deny (Some ''http://example/sessions/1'') = Returns (JBool False)"
    by (simp add: deny_def)
  have falsy: "\<not> truthy (JBool False)"
    by simp
  show ?thesis
    using denied_session_is_answered_403
        [where isAuthorized = deny and req = direct_post, OF valid session denies falsy]
      valid session denies
    by simp
qed

text \<open>
  C6. A POST whose \<^verbatim>\<open>Content-Type\<close> is the form type and whose decoded body has no
  \<^verbatim>\<open>query\<close> field, or an empty one (\<^verbatim>\<open>req.body?.query\<close> is falsy), is answered 400;
  \<^verbatim>\<open>isAuthorized\<close> is not called and the request is not forwarded.
\<close>

theorem form_post_without_query_is_answered_400:
  assumes "req_method req = ''POST''"
    and "regexp_test form_urlencoded (req_get req ''Content-Type'')"
    and "\<not> truthy (optional_member (body req) ''query'')"
  shows "result (app isAuthorized req) =
           Error_response 400
             ''When querying with POST and Content-Type \"application/x-www-form-urlencoded\", you must supply the query as a form parameter.''
         \<and> authorizer_calls (app isAuthorized req) = []
         \<and> \<not> forwarded (result (app isAuthorized req))"
proof -
  have "shape_check req =
      Inl \<lparr>message =
        ''When querying with POST and Content-Type \"application/x-www-form-urlencoded\", you must supply the query as a form parameter.'',
        status = Some 400\<rparr>"
    using assms by (simp add: shape_check_def ensurePOSTSparqlParams_def new_Error_def)
  then have "app isAuthorized req =
      \<lparr>result = error_handler (Thrown_error \<lparr>message =
        ''When querying with POST and Content-Type \"application/x-www-form-urlencoded\", you must supply the query as a form parameter.'',
        status = Some 400\<rparr>), authorizer_calls = []\<rparr>"
    by (intro app_rejects shape_error_first)
  then show ?thesis
    by (simp add: error_handler_400)
qed

theorem form_post_without_query_is_answered_400_witness:
  "req_method form_post_without_query = ''POST''
   \<and> regexp_test form_urlencoded (req_get form_post_without_query ''Content-Type'')
   \<and> \<not> truthy (optional_member (body form_post_without_query) ''query'')
   \<and> result (app allow form_post_without_query) =
       Error_response 400
         ''When querying with POST and Content-Type \"application/x-www-form-urlencoded\", you must supply the query as a form parameter.''
   \<and> authorizer_calls (app allow form_post_without_query) = []
   \<and> \<not> forwarded (result (app allow form_post_without_query))"
proof -
  have m: "req_method form_post_without_query = ''POST''"
    by (simp add: form_post_without_query_def)
  have t: "regexp_test form_urlencoded (req_get form_post_without_query ''Content-Type'')"
    by (simp add: eval_simps form_post_without_query_def)
  have q: "\<not> truthy (optional_member (body form_post_without_query) ''query'')"
    by (simp add: form_post_without_query_def)
  show ?thesis
    using form_post_without_query_is_answered_400
        [where isAuthorized = allow and req = form_post_without_query, OF m t q] m t q
    by simp
qed

text \<open>
  C7. A request whose method is neither GET nor POST fails the validation with status 401
  and the message of the \<^verbatim>\<open>default\<close> branch, and is answered so.
\<close>

theorem other_method_is_answered_401:
  assumes "req_method req \<noteq> ''GET''" and "req_method req \<noteq> ''POST''"
  shows "ensureSparqlParams req =
           Inl \<lparr>message = ''Not a correctly formed request for SPARQL queries.'',
                status = Some 401\<rparr>
         \<and> result (app isAuthorized req) =
           Error_response 401 ''Not a correctly formed request for SPARQL queries.''"
proof -
  have "shape_check req =
      Inl \<lparr>message = ''Not a correctly formed request for SPARQL queries.'', status = Some 401\<rparr>"
    using assms by (simp add: shape_check_def new_Error_def)
  then have e: "ensureSparqlParams req =
      Inl \<lparr>message = ''Not a correctly formed request for SPARQL queries.'', status = Some 401\<rparr>"
    by (rule shape_error_first)
  show ?thesis
    using e app_rejects [OF e, of isAuthorized]
    by (simp add: error_handler_401)
qed

theorem other_method_is_answered_401_witness:
  "req_method delete_request \<noteq> ''GET'' \<and> req_method delete_request \<noteq> ''POST''
   \<and> ensureSparqlParams delete_request =
       Inl \<lparr>message = ''Not a correctly formed request for SPARQL queries.'', status = Some 401\<rparr>
   \<and> result (app allow delete_request) =
       Error_response 401 ''Not a correctly formed request for SPARQL queries.''"
proof -
  have g: "req_method delete_request \<noteq> ''GET''" and p: "req_method delete_request \<noteq> ''POST''"
    by (simp_all add: delete_request_def)
  show ?thesis
    using other_method_is_answered_401 [where req = delete_request and isAuthorized = allow, OF g p]
      g p
    by simp
qed

text \<open>
  C8. A forwarded raw body should leave with its bytes unchanged, under a
  \<^verbatim>\<open>Content-Length\<close> of that many bytes. The hook takes the length from the buffer and
  writes \<^verbatim>\<open>body.toString()\<close>, the body decoded as UTF-8 and encoded again: for a body of
  the one byte \<open>0xFF\<close> it announces one byte and writes the three bytes of U+FFFD.
\<close>

theorem non_utf8_body_is_not_forwarded_unchanged:
  "body direct_post_latin1 = Body_buffer [CHR 0xFF]
   \<and> regexp_test sparql_query (req_get direct_post_latin1 ''Content-Type'')
   \<and> result (app allow direct_post_latin1) =
       Proxied (Rewritten 1 [CHR 0xEF, CHR 0xBF, CHR 0xBD])"
  by (simp add: eval_simps direct_post_def direct_post_latin1_def allow_def)

text \<open>
  C9. For a request that passes the validation, \<^verbatim>\<open>isAuthorized\<close> is called once, with
  the value of the \<^verbatim>\<open>Mu-Session-Id\<close> header as it stands in the request, and what
  \<^verbatim>\<open>isAuthorized\<close> answers for that very string decides the outcome: the layers after the
  middleware for a truthy value, 403 for a falsy one, and for a thrown value what Express
  does with it.
\<close>

theorem session_is_passed_verbatim:
  assumes "ensureSparqlParams req = Inr ()"
  shows "\<exists>s. headers req ''mu-session-id'' = Some s
           \<and> authorizer_calls (app isAuthorized req) = [Some s]
           \<and> result (app isAuthorized req) =
               (case isAuthorized (Some s) of
                  Returns v \<Rightarrow>
                    if truthy v then after_next None req
                    else Error_response 403
                      ''This session is not authorized to execute SPARQL queries.''
                | Throws err \<Rightarrow> after_next (Some err) req)"
proof -
  have "truthy_string (req_get req ''Mu-Session-Id'')"
    using assms by (simp add: ensureSparqlParams_Inr)
  then obtain s where s: "req_get req ''Mu-Session-Id'' = Some s"
    by (cases "req_get req ''Mu-Session-Id''") simp_all
  then have "headers req ''mu-session-id'' = Some s"
    by (simp add: req_get_session)
  then show ?thesis
    using s by (simp add: app_asks [OF assms])
qed

theorem session_is_passed_verbatim_witness:
  "ensureSparqlParams direct_post = Inr ()
   \<and> headers direct_post ''mu-session-id'' = Some ''http://example/sessions/1''
   \<and> authorizer_calls (app (allow_only ''http://example/sessions/1'') direct_post) =
       [Some ''http://example/sessions/1'']
   \<and> result (app (allow_only ''http://example/sessions/1'') direct_post) =
       after_next None direct_post
   \<and> forwarded (after_next None direct_post)"
proof -
  have valid: "ensureSparqlParams direct_post = Inr ()"
    by (simp add: eval_simps direct_post_def)
  have h: "headers direct_post ''mu-session-id'' = Some ''http://example/sessions/1''"
    by (simp add: direct_post_def)
  have a: "allow_only ''http://example/sessions/1'' (Some ''http://example/sessions/1'') =
      Returns (JBool True)"
    by (simp add: allow_only_def)
  have f: "forwarded (after_next None direct_post)"
    by (simp add: eval_simps direct_post_def)
  show ?thesis
    using session_is_passed_verbatim
        [where req = direct_post and isAuthorized = "allow_only ''http://example/sessions/1''",
          OF valid]
      valid h a f
    by auto
qed

text \<open>
  C10, as stated: a \<^verbatim>\<open>Content-Type\<close> that contains \<^verbatim>\<open>application/sparql-query\<close> anywhere
  is taken for the raw shape. The form type is tested first, so a value that contains both
  is checked as a form: the direct POST below has a query as its raw body and is rejected
  for the missing form field, while the same request under the plain type passes.
\<close>

theorem both_types_are_checked_as_form:
  "regexp_test sparql_query (req_get direct_post_both_types ''Content-Type'')
   \<and> body direct_post_both_types = body direct_post
   \<and> ensurePOSTSparqlParams direct_post = Inr ()
   \<and> ensurePOSTSparqlParams direct_post_both_types =
       Inl \<lparr>message =
         ''When querying with POST and Content-Type \"application/x-www-form-urlencoded\", you must supply the query as a form parameter.'',
         status = Some 400\<rparr>"
  by (simp add: eval_simps direct_post_def direct_post_both_types_def)

text \<open>
  C10, amended: for a POST the \<^verbatim>\<open>Content-Type\<close> is tested for a text it contains, not
  for equality. A value that contains \<^verbatim>\<open>application/x-www-form-urlencoded\<close> anywhere is
  checked as a form, and passes exactly when the body has a truthy \<^verbatim>\<open>query\<close> field; a
  value that contains \<^verbatim>\<open>application/sparql-query\<close> anywhere and not the form type is
  checked as a raw body, and passes exactly when the body as text is not blank; a POST
  without \<^verbatim>\<open>Content-Type\<close> gets the 400 of the unsupported type.
\<close>

theorem content_type_is_tested_for_containment:
  assumes "req_method req = ''POST''"
  shows "(req_get req ''Content-Type'' = Some (u @ form_urlencoded @ v) \<longrightarrow>
            (shape_check req = Inr () \<longleftrightarrow> truthy (optional_member (body req) ''query'')))
         \<and> (req_get req ''Content-Type'' = Some (u @ sparql_query @ v)
            \<and> \<not> sublist form_urlencoded (u @ sparql_query @ v) \<longrightarrow>
            (shape_check req = Inr () \<longleftrightarrow>
               (\<exists>text. body_toString (body req) = Inr text \<and> js_trim text \<noteq> [])))
         \<and> (req_get req ''Content-Type'' = None \<longrightarrow>
            shape_check req =
              Inl \<lparr>message =
                ''Content-Type not valid, only \"application/x-www-form-urlencoded\" or \"application/sparql-query\" are accepted'',
                status = Some 400\<rparr>)"
proof (intro conjI impI)
  assume "req_get req ''Content-Type'' = Some (u @ form_urlencoded @ v)"
  then have "regexp_test form_urlencoded (req_get req ''Content-Type'')"
    by (auto simp: regexp_test_iff)
  then show "shape_check req = Inr () \<longleftrightarrow> truthy (optional_member (body req) ''query'')"
    using assms by (simp add: shape_check_def ensurePOSTSparqlParams_def)
next
  assume a: "req_get req ''Content-Type'' = Some (u @ sparql_query @ v)
    \<and> \<not> sublist form_urlencoded (u @ sparql_query @ v)"
  then have "\<not> regexp_test form_urlencoded (req_get req ''Content-Type'')"
    by (simp add: regexp_test_def)
  moreover have "regexp_test sparql_query (req_get req ''Content-Type'')"
    using a by (auto simp: regexp_test_iff)
  ultimately show "shape_check req = Inr () \<longleftrightarrow>
      (\<exists>text. body_toString (body req) = Inr text \<and> js_trim text \<noteq> [])"
    using assms by (auto simp: shape_check_def ensurePOSTSparqlParams_def split: sum.splits)
next
  assume "req_get req ''Content-Type'' = None"
  then have "\<not> regexp_test form_urlencoded (req_get req ''Content-Type'')"
    and "\<not> regexp_test sparql_query (req_get req ''Content-Type'')"
    by (simp_all add: regexp_test_def form_urlencoded_def sparql_query_def sublist_Cons_right)
  then show "shape_check req =
      Inl \<lparr>message =
        ''Content-Type not valid, only \"application/x-www-form-urlencoded\" or \"application/sparql-query\" are accepted'',
        status = Some 400\<rparr>"
    using assms by (simp add: shape_check_def ensurePOSTSparqlParams_def new_Error_def)
qed

theorem content_type_is_tested_for_containment_witness:
  "req_method form_post = ''POST''
   \<and> req_get form_post ''Content-Type'' = Some ([] @ form_urlencoded @ ''; charset=UTF-8'')
   \<and> truthy (optional_member (body form_post) ''query'')
   \<and> shape_check form_post = Inr ()
   \<and> req_method direct_post_charset = ''POST''
   \<and> req_get direct_post_charset ''Content-Type'' = Some ([] @ sparql_query @ ''; charset=UTF-8'')
   \<and> \<not> sublist form_urlencoded ([] @ sparql_query @ ''; charset=UTF-8'')
   \<and> shape_check direct_post_charset = Inr ()
   \<and> req_method post_without_type = ''POST''
   \<and> req_get post_without_type ''Content-Type'' = None
   \<and> shape_check post_without_type =
       Inl \<lparr>message =
         ''Content-Type not valid, only \"application/x-www-form-urlencoded\" or \"application/sparql-query\" are accepted'',
         status = Some 400\<rparr>"
proof -
  have m1: "req_method form_post = ''POST''"
    by (simp add: eval_simps form_post_def)
  have t1: "req_get form_post ''Content-Type'' = Some ([] @ form_urlencoded @ ''; charset=UTF-8'')"
    by (simp add: eval_simps form_post_def)
  have q1: "truthy (optional_member (body form_post) ''query'')"
    by (simp add: eval_simps form_post_def)
  have m2: "req_method direct_post_charset = ''POST''"
    by (simp add: eval_simps direct_post_def direct_post_charset_def)
  have t2: "req_get direct_post_charset ''Content-Type'' =
      Some ([] @ sparql_query @ ''; charset=UTF-8'')"
    by (simp add: eval_simps direct_post_def direct_post_charset_def)
  have n2: "\<not> sublist form_urlencoded ([] @ sparql_query @ ''; charset=UTF-8'')"
    by (simp add: eval_simps)
  have m3: "req_method post_without_type = ''POST''"
    by (simp add: eval_simps direct_post_def post_without_type_def)
  have t3: "req_get post_without_type ''Content-Type'' = None"
    by (simp add: eval_simps direct_post_def post_without_type_def)
  have b2: "\<exists>text. body_toString (body direct_post_charset) = Inr text \<and> js_trim text \<noteq> []"
    by (simp add: eval_simps direct_post_def direct_post_charset_def)
  show ?thesis
    using content_type_is_tested_for_containment
        [where req = form_post and u = "[]" and v = "''; charset=UTF-8''", OF m1]
      content_type_is_tested_for_containment
        [where req = direct_post_charset and u = "[]" and v = "''; charset=UTF-8''", OF m2]
      content_type_is_tested_for_containment [where req = post_without_type, OF m3]
      m1 t1 q1 m2 t2 n2 b2 m3 t3
    by blast
qed

end
